theory Spec2Isabelle
  imports Complex_Main
begin

section \<open>The jogging calculations of moveit\_jog\_arm (jog\_calcs.cpp)\<close>

text \<open>
  A shallow embedding of the class JogCalcs. Conventions:
  \<^item> a C++ double is a \<open>real\<close>: rounding is not represented, and an infinity or a NaN
    only where the condition number divides by a singular value (\<open>quotient\<close>);
  \<^item> an Eigen vector or array and a std::vector of doubles is a \<open>real list\<close>, an Eigen
    matrix is the list of its rows;
  \<^item> a member variable of JogCalcs is a field of the record \<open>JogCalcs\<close>, and a member
    function takes the object and returns it updated together with its return value;
  \<^item> the mutex only brackets single reads and writes of the shared variables, so a
    locked read is a read of the \<open>JogArmShared\<close> value given to the function;
  \<^item> an access the C++ leaves undefined (an index beyond a std::vector or a C array, an
    Eigen operation on sizes that do not fit) is the value \<open>Inl\<close> of a \<open>fault\<close>.
\<close>

subsection \<open>Messages and parameters\<close>

text \<open>JogArmParameters (declared in jog\_arm\_data.h): the fields jog\_calcs.cpp reads.\<close>

record JogArmParameters =
  command_in_type :: string
  planning_frame :: string
  publish_period :: real
  linear_scale :: real
  rotational_scale :: real
  joint_scale :: real
  lower_singularity_threshold :: real
  hard_stop_singularity_threshold :: real
  joint_limit_margin :: real
  num_outgoing_halt_msgs_to_publish :: int
  publish_joint_positions :: bool
  publish_joint_velocities :: bool
  publish_joint_accelerations :: bool
  use_gazebo :: bool

text \<open>sensor\_msgs::JointState.\<close>

record JointState =
  name :: "string list"
  position :: "real list"
  velocity :: "real list"
  effort :: "real list"

text \<open>geometry\_msgs::TwistStamped: the frame of the header and the six twist components.\<close>

record TwistStamped =
  frame_id :: string
  linear_x :: real
  linear_y :: real
  linear_z :: real
  angular_x :: real
  angular_y :: real
  angular_z :: real

text \<open>control\_msgs::JointJog: the joint names and their commanded velocities.\<close>

record JointJog =
  jog_joint_names :: "string list"
  jog_velocities :: "real list"

text \<open>trajectory\_msgs::JointTrajectoryPoint and trajectory\_msgs::JointTrajectory.\<close>

record JointTrajectoryPoint =
  positions :: "real list"
  velocities :: "real list"
  accelerations :: "real list"
  time_from_start :: real

record JointTrajectory =
  traj_frame_id :: string
  traj_stamp :: real
  joint_names :: "string list"
  points :: "JointTrajectoryPoint list"

text \<open>JogArmShared (declared in jog\_arm\_data.h): the variables shared with the other
  threads that jog\_calcs.cpp reads or writes.\<close>

record JogArmShared =
  joints :: JointState
  command_deltas :: TwistStamped
  joint_command_deltas :: JointJog
  zero_cartesian_cmd_flag :: bool
  zero_joint_cmd_flag :: bool
  command_is_stale :: bool
  drift_dimensions :: "bool list"
  collision_velocity_scale :: real
  outgoing_command :: JointTrajectory
  ok_to_publish :: bool

datatype fault = IndexOutOfRange nat | EigenSizeMismatch

datatype log_entry = LogWarn string | LogError string

subsection \<open>Faults and loops\<close>

definition bindF :: "fault + 'a \<Rightarrow> ('a \<Rightarrow> fault + 'b) \<Rightarrow> fault + 'b" where
  "bindF m f = (case m of Inl e \<Rightarrow> Inl e | Inr x \<Rightarrow> f x)"

text \<open>A for loop over the indices (or elements) \<open>xs\<close>, left when an iteration faults.\<close>

primrec for_each :: "'i list \<Rightarrow> ('i \<Rightarrow> 's \<Rightarrow> fault + 's) \<Rightarrow> 's \<Rightarrow> fault + 's" where
  "for_each [] body s = Inr s"
| "for_each (i # is) body s = bindF (body i s) (for_each is body)"

subsection \<open>The kinematic model and the filters\<close>

text \<open>
  The robot state of the kinematic model provider (moveit\_core, not among the sources):
  the joint positions and velocities of the move group, in the order of its variables.
\<close>

record RobotState =
  variable_positions :: "real list"
  variable_velocities :: "real list"

text \<open>
  Modelled from the spec: copyJointGroupPositions of the robot state is not among the
  sources; it reads the joint positions \<open>\<theta>\<close> the kinematic state holds ("compute probe
  joints \<open>\<theta>' = \<theta> + pinv \<cdot> \<delta>\<close>").
\<close>

definition copyJointGroupPositions :: "RobotState \<Rightarrow> real list" where
  "copyJointGroupPositions kinematic_state = variable_positions kinematic_state"

text \<open>
  Modelled from the spec: setJointGroupPositions of the robot state is not among the
  sources; it writes the joint positions of the kinematic state ("the singularity
  look-ahead mutates kinematic state in the source"; "mutated only by the calc loop
  (setting joint values, probing for singularity)").
\<close>

definition setJointGroupPositions :: "RobotState \<Rightarrow> real list \<Rightarrow> RobotState" where
  "setJointGroupPositions kinematic_state theta = kinematic_state\<lparr>variable_positions := theta\<rparr>"

text \<open>moveit\_msgs::JointLimits and a joint model of the group: its name and the message of
  its variable bounds (empty for a joint without limits).\<close>

record JointLimits =
  min_position :: real
  max_position :: real

record JointModel =
  getName :: string
  getVariableBoundsMsg :: "JointLimits list"

text \<open>Eigen::JacobiSVD: the factors jog\_calcs.cpp reads.\<close>

record JacobiSVD =
  matrixU :: "real list list"
  matrixV :: "real list list"
  singularValues :: "real list"

text \<open>
  What jog\_calcs.cpp calls and the sources do not hold is a parameter of the model: the
  other member functions of the robot state, Eigen's singular value decomposition, and
  the low-pass filter of low\_pass\_filter.h (its state is kept as a list of reals).
  getJointVelocities gives the first velocity of the joint.
\<close>

record Collaborators =
  setVariableValues :: "RobotState \<Rightarrow> JointState \<Rightarrow> RobotState"
  satisfiesVelocityBounds :: "RobotState \<Rightarrow> JointModel \<Rightarrow> bool"
  enforceVelocityBounds :: "RobotState \<Rightarrow> JointModel \<Rightarrow> RobotState"
  getJointVelocities :: "RobotState \<Rightarrow> JointModel \<Rightarrow> real"
  satisfiesPositionBounds :: "RobotState \<Rightarrow> JointModel \<Rightarrow> real \<Rightarrow> bool"
  getJacobian :: "RobotState \<Rightarrow> real list list"
  jacobiSVD :: "real list list \<Rightarrow> JacobiSVD"
  filter_measurement :: "real list \<Rightarrow> real \<Rightarrow> real \<times> real list"
  reset_filter :: "real list \<Rightarrow> real \<Rightarrow> real list"

subsection \<open>The object\<close>

text \<open>
  The member variables of JogCalcs (a trailing underscore is dropped from each name).
  \<open>published_warnings\<close> collects what publishWarning sends on the warning topic;
  of the transform \<open>tf_moveit_to_cmd_frame\<close> the rotation (its linear part) is kept.
\<close>

record JogCalcs =
  parameters :: JogArmParameters
  num_joints :: nat
  joint_model_group :: "JointModel list"
  joint_state :: JointState
  original_joint_state :: JointState
  incoming_joints :: JointState
  joint_state_name_map :: "string \<rightharpoonup> nat"
  delta_theta_member :: "real list"
  outgoing_command_member :: JointTrajectory
  kinematic_state :: RobotState
  tf_moveit_to_cmd_frame_linear :: "real list list"
  position_filters :: "real list list"
  has_warning :: bool
  gazebo_redundant_message_count :: int
  published_warnings :: "bool list"

subsection \<open>updateJoints\<close>

text \<open>
  One iteration of the loop over the incoming names: a name the map does not hold is
  skipped (the catch clause continues), otherwise the incoming position is stored at
  the mapped index. Both vectors are indexed without a check.
\<close>

definition updateJoints_body :: "nat \<Rightarrow> JogCalcs \<Rightarrow> fault + JogCalcs" where
  "updateJoints_body m jc =
     (case joint_state_name_map jc (name (incoming_joints jc) ! m) of
        None \<Rightarrow> Inr jc
      | Some c \<Rightarrow>
          if length (position (incoming_joints jc)) \<le> m then Inl (IndexOutOfRange m)
          else if length (position (joint_state jc)) \<le> c then Inl (IndexOutOfRange c)
          else Inr (jc\<lparr>joint_state := (joint_state jc)
                 \<lparr>position := (position (joint_state jc))[c := position (incoming_joints jc) ! m]\<rparr>\<rparr>))"

definition updateJoints :: "JogCalcs \<Rightarrow> JogArmShared \<Rightarrow> fault + (bool \<times> JogCalcs)" where
  "updateJoints jc shared_variables =
     (let jc1 = jc\<lparr>incoming_joints := joints shared_variables\<rparr> in
      if length (name (incoming_joints jc1)) < num_joints jc1 then Inr (False, jc1)
      else bindF (for_each [0..<length (name (incoming_joints jc1))] updateJoints_body jc1)
             (\<lambda>jc2. Inr (True, jc2\<lparr>original_joint_state := joint_state jc2\<rparr>)))"

subsection \<open>suddenHalt\<close>

text \<open>
  One iteration of the loop over the joints: the first point of the trajectory gets the
  original position of joint \<open>i\<close> when positions are published, and a zero velocity when
  velocities are published. No index is checked.
\<close>

definition suddenHalt_body :: "JogArmParameters \<Rightarrow> JointState \<Rightarrow> nat \<Rightarrow> JointTrajectory \<Rightarrow> fault + JointTrajectory" where
  "suddenHalt_body params original i joint_traj =
     bindF
       (if publish_joint_positions params then
          (case points joint_traj of
             [] \<Rightarrow> Inl (IndexOutOfRange 0)
           | pt # rest \<Rightarrow>
               if length (positions pt) \<le> i \<or> length (position original) \<le> i
               then Inl (IndexOutOfRange i)
               else Inr (joint_traj\<lparr>points :=
                      pt\<lparr>positions := (positions pt)[i := position original ! i]\<rparr> # rest\<rparr>))
        else Inr joint_traj)
       (\<lambda>joint_traj1.
          if publish_joint_velocities params then
            (case points joint_traj1 of
               [] \<Rightarrow> Inl (IndexOutOfRange 0)
             | pt # rest \<Rightarrow>
                 if length (velocities pt) \<le> i then Inl (IndexOutOfRange i)
                 else Inr (joint_traj1\<lparr>points := pt\<lparr>velocities := (velocities pt)[i := 0]\<rparr> # rest\<rparr>))
          else Inr joint_traj1)"

definition suddenHalt :: "JogCalcs \<Rightarrow> JointTrajectory \<Rightarrow> fault + JointTrajectory" where
  "suddenHalt jc joint_traj =
     for_each [0..<num_joints jc] (suddenHalt_body (parameters jc) (original_joint_state jc)) joint_traj"

text \<open>What the first \<open>n\<close> iterations of suddenHalt make of the first point (proved below).\<close>

definition halted_point :: "JogArmParameters \<Rightarrow> JointState \<Rightarrow> nat \<Rightarrow> JointTrajectoryPoint \<Rightarrow> JointTrajectoryPoint" where
  "halted_point params original n pt =
     pt\<lparr>positions := (if publish_joint_positions params
                       then take n (position original) @ drop n (positions pt) else positions pt),
        velocities := (if publish_joint_velocities params
                       then replicate n 0 @ drop n (velocities pt) else velocities pt)\<rparr>"

subsection \<open>composeJointTrajMessage and insertRedundantPointsIntoTrajectory\<close>

text \<open>\<open>now\<close> is the value of ros::Time::now().\<close>

definition composeJointTrajMessage :: "JogCalcs \<Rightarrow> real \<Rightarrow> JointState \<Rightarrow> JointTrajectory" where
  "composeJointTrajMessage jc now js =
     (let point = \<lparr>positions = (if publish_joint_positions (parameters jc) then position js else []),
                   velocities = (if publish_joint_velocities (parameters jc) then velocity js else []),
                   accelerations = (if publish_joint_accelerations (parameters jc)
                                    then replicate (num_joints jc) 0 else []),
                   time_from_start = publish_period (parameters jc)\<rparr>
      in \<lparr>traj_frame_id = planning_frame (parameters jc), traj_stamp = now,
          joint_names = name js, points = [point]\<rparr>)"

text \<open>Copies of the first point, with the times \<open>i * publish_period\<close> for \<open>i\<close> from 2 to
  \<open>count\<close>, are pushed to the back.\<close>

definition insertRedundantPointsIntoTrajectory ::
  "JogCalcs \<Rightarrow> JointTrajectory \<Rightarrow> int \<Rightarrow> fault + JointTrajectory" where
  "insertRedundantPointsIntoTrajectory jc trajectory count =
     (case points trajectory of
        [] \<Rightarrow> Inl (IndexOutOfRange 0)
      | point # rest \<Rightarrow>
          Inr (trajectory\<lparr>points := points trajectory @
                 map (\<lambda>i. point\<lparr>time_from_start := real i * publish_period (parameters jc)\<rparr>)
                   [2..<nat (count + 1)]\<rparr>))"

subsection \<open>enforceSRDFJointBounds\<close>

text \<open>
  The loop that writes an enforced velocity into the trajectory: the first index \<open>c\<close>
  whose joint name is the joint's and for which \<open>velocities.size() > c + 1\<close> is written,
  and the loop is left there.
\<close>

fun write_enforced_velocity ::
  "string \<Rightarrow> real \<Rightarrow> nat list \<Rightarrow> JointTrajectory \<Rightarrow> fault + JointTrajectory" where
  "write_enforced_velocity jn v [] traj = Inr traj"
| "write_enforced_velocity jn v (c # cs) traj =
     (if joint_names traj ! c = jn then
        (case points traj of
           [] \<Rightarrow> Inl (IndexOutOfRange 0)
         | pt # rest \<Rightarrow>
             if length (velocities pt) > c + 1
             then Inr (traj\<lparr>points := pt\<lparr>velocities := (velocities pt)[c := v]\<rparr> # rest\<rparr>)
             else write_enforced_velocity jn v cs traj)
      else write_enforced_velocity jn v cs traj)"

text \<open>The loop that looks the joint's angle up in the original joint state: 0 when no
  name matches; \<open>position.at(c)\<close> is a checked access.\<close>

fun find_joint_angle :: "JointState \<Rightarrow> string \<Rightarrow> nat list \<Rightarrow> fault + real" where
  "find_joint_angle original jn [] = Inr 0"
| "find_joint_angle original jn (c # cs) =
     (if name original ! c = jn then
        (if c < length (position original) then Inr (position original ! c)
         else Inl (IndexOutOfRange c))
      else find_joint_angle original jn cs)"

text \<open>One iteration of the loop over the joint models; the state is the halting flag,
  the trajectory and the object (whose kinematic state enforceVelocityBounds changes).\<close>

definition enforceSRDF_joint ::
  "Collaborators \<Rightarrow> JointModel \<Rightarrow> bool \<times> JointTrajectory \<times> JogCalcs
     \<Rightarrow> fault + (bool \<times> JointTrajectory \<times> JogCalcs)" where
  "enforceSRDF_joint api joint st =
     (case st of (halting, traj, jc) \<Rightarrow>
      bindF
        (if satisfiesVelocityBounds api (kinematic_state jc) joint then Inr (traj, jc)
         else
           (let ks1 = enforceVelocityBounds api (kinematic_state jc) joint in
            bindF (write_enforced_velocity (getName joint) (getJointVelocities api ks1 joint)
                     [0..<length (joint_names traj)] traj)
              (\<lambda>traj1. Inr (traj1, jc\<lparr>kinematic_state := ks1\<rparr>))))
        (\<lambda>(traj1, jc1).
           bindF (find_joint_angle (original_joint_state jc1) (getName joint)
                    [0..<length (name (original_joint_state jc1))])
             (\<lambda>joint_angle.
                Inr ((if satisfiesPositionBounds api (kinematic_state jc1) joint
                           (- joint_limit_margin (parameters jc1))
                      then halting
                      else
                        (case getVariableBoundsMsg joint of
                           [] \<Rightarrow> halting
                         | limits0 # _ \<Rightarrow>
                             if (getJointVelocities api (kinematic_state jc1) joint < 0 \<and>
                                 joint_angle < min_position limits0 + joint_limit_margin (parameters jc1)) \<or>
                                (getJointVelocities api (kinematic_state jc1) joint > 0 \<and>
                                 joint_angle > max_position limits0 - joint_limit_margin (parameters jc1))
                             then True else halting)),
                     traj1, jc1))))"

text \<open>Returned: the return value, the trajectory passed by reference, and the object.\<close>

definition enforceSRDFJointBounds ::
  "Collaborators \<Rightarrow> JogCalcs \<Rightarrow> JointTrajectory \<Rightarrow> fault + (bool \<times> JointTrajectory \<times> JogCalcs)" where
  "enforceSRDFJointBounds api jc new_joint_traj =
     (if points new_joint_traj = [] then Inr (True, new_joint_traj, jc)
      else bindF (for_each (joint_model_group jc) (enforceSRDF_joint api) (False, new_joint_traj, jc))
             (\<lambda>(halting, traj, jc'). Inr (\<not> halting, traj, jc')))"

subsection \<open>From the deltas to the outgoing command\<close>

text \<open>
  addJointIncrements indexes \<open>output.position\<close> without a check, so its catch clause is
  never entered: it returns true whenever it returns.
\<close>

definition addJointIncrements :: "JointState \<Rightarrow> real list \<Rightarrow> fault + (bool \<times> JointState)" where
  "addJointIncrements output increments =
     bindF (for_each [0..<length increments]
              (\<lambda>i out. if length (position out) \<le> i then Inl (IndexOutOfRange i)
                        else Inr (out\<lparr>position := (position out)[i := position out ! i + increments ! i]\<rparr>))
              output)
       (\<lambda>out. Inr (True, out))"

definition lowPassFilterPositions :: "Collaborators \<Rightarrow> JogCalcs \<Rightarrow> fault + JogCalcs" where
  "lowPassFilterPositions api jc =
     for_each [0..<length (position_filters jc)]
       (\<lambda>i jc1. if length (position (joint_state jc1)) \<le> i then Inl (IndexOutOfRange i)
                 else
                   (let (y, f) = filter_measurement api (position_filters jc1 ! i)
                                   (position (joint_state jc1) ! i)
                    in Inr (jc1\<lparr>position_filters := (position_filters jc1)[i := f],
                                 joint_state := (joint_state jc1)
                                   \<lparr>position := (position (joint_state jc1))[i := y]\<rparr>\<rparr>)))
       jc"

definition calculateJointVelocities ::
  "JogArmParameters \<Rightarrow> JointState \<Rightarrow> real list \<Rightarrow> fault + JointState" where
  "calculateJointVelocities params js delta_theta =
     for_each [0..<length delta_theta]
       (\<lambda>i js1. if length (velocity js1) \<le> i then Inl (IndexOutOfRange i)
                 else Inr (js1\<lparr>velocity := (velocity js1)[i := delta_theta ! i / publish_period params]\<rparr>))
       js"

definition publishWarning :: "JogCalcs \<Rightarrow> bool \<Rightarrow> JogCalcs" where
  "publishWarning jc active = jc\<lparr>published_warnings := published_warnings jc @ [active]\<rparr>"

definition convertDeltasToOutgoingCmd :: "Collaborators \<Rightarrow> real \<Rightarrow> JogCalcs \<Rightarrow> fault + (bool \<times> JogCalcs)" where
  "convertDeltasToOutgoingCmd api now jc =
     bindF (addJointIncrements (joint_state jc) (delta_theta_member jc))
       (\<lambda>(added, js1).
          if \<not> added then Inr (False, jc\<lparr>joint_state := js1\<rparr>)
          else
            bindF (lowPassFilterPositions api (jc\<lparr>joint_state := js1\<rparr>))
              (\<lambda>jc2.
                 bindF (calculateJointVelocities (parameters jc2) (joint_state jc2) (delta_theta_member jc2))
                   (\<lambda>js3.
                      let jc3 = jc2\<lparr>joint_state := js3\<rparr>;
                          jc4 = jc3\<lparr>outgoing_command_member := composeJointTrajMessage jc3 now (joint_state jc3)\<rparr>
                      in
                      bindF (enforceSRDFJointBounds api jc4 (outgoing_command_member jc4))
                        (\<lambda>(within_bounds, traj, jc5).
                           bindF
                             (if within_bounds then Inr (jc5\<lparr>outgoing_command_member := traj\<rparr>)
                              else bindF (suddenHalt jc5 traj)
                                     (\<lambda>halted. Inr (jc5\<lparr>outgoing_command_member := halted,
                                                        has_warning := True\<rparr>)))
                             (\<lambda>jc6.
                                let jc7 = (publishWarning jc6 (has_warning jc6))\<lparr>has_warning := False\<rparr> in
                                if use_gazebo (parameters jc7) then
                                  bindF (insertRedundantPointsIntoTrajectory jc7 (outgoing_command_member jc7)
                                           (gazebo_redundant_message_count jc7))
                                    (\<lambda>traj8. Inr (True, jc7\<lparr>outgoing_command_member := traj8\<rparr>))
                                else Inr (True, jc7))))))"

subsection \<open>jointJogCalcs\<close>

text \<open>
  scaleJointCommand: the result is zeroed, then each commanded joint the map holds gets
  its scaled velocity. For a name the map does not hold, the catch clause writes a
  warning that reads \<open>incoming_joints_.name[m]\<close> without a check (\<open>m\<close> indexes the
  command, not the incoming joints) and goes on to the next name. With another
  command\_in\_type the entry is left as it is (an error is logged).
\<close>

definition scaleJointCommand :: "JogCalcs \<Rightarrow> JointJog \<Rightarrow> fault + real list" where
  "scaleJointCommand jc command =
     for_each [0..<length (jog_joint_names command)]
       (\<lambda>m result.
          case joint_state_name_map jc (jog_joint_names command ! m) of
            None \<Rightarrow>
              if length (name (incoming_joints jc)) \<le> m then Inl (IndexOutOfRange m)
              else Inr result
          | Some c \<Rightarrow>
              if command_in_type (parameters jc) = ''unitless'' then
                (if length (jog_velocities command) \<le> m then Inl (IndexOutOfRange m)
                 else if length result \<le> c then Inl (IndexOutOfRange c)
                 else Inr (result[c := jog_velocities command ! m * joint_scale (parameters jc)
                                          * publish_period (parameters jc)]))
              else if command_in_type (parameters jc) = ''speed_units'' then
                (if length (jog_velocities command) \<le> m then Inl (IndexOutOfRange m)
                 else if length result \<le> c then Inl (IndexOutOfRange c)
                 else Inr (result[c := jog_velocities command ! m * publish_period (parameters jc)]))
              else Inr result)
       (replicate (num_joints jc) 0)"

text \<open>A real is never NaN, so of the check of the velocities only \<open>|v| > 1\<close> is left.\<close>

definition jointJogCalcs :: "Collaborators \<Rightarrow> real \<Rightarrow> JogCalcs \<Rightarrow> JointJog \<Rightarrow> fault + (bool \<times> JogCalcs)" where
  "jointJogCalcs api now jc cmd =
     (if list_ex (\<lambda>v. \<bar>v\<bar> > 1) (jog_velocities cmd) then Inr (False, jc)
      else
        bindF (scaleJointCommand jc cmd)
          (\<lambda>scaled.
             convertDeltasToOutgoingCmd api now
               (jc\<lparr>delta_theta_member := scaled,
                   kinematic_state := setVariableValues api (kinematic_state jc) (joint_state jc)\<rparr>)))"

subsection \<open>The end of a cycle of startMainLoop\<close>

text \<open>
  The halt for a stale or all-zero command: the outgoing command is halted and both zero
  flags of the cycle are set. Returned: the object and the two flags.
\<close>

definition halt_if_stale_or_zero ::
  "JogCalcs \<Rightarrow> JogArmShared \<Rightarrow> bool \<Rightarrow> bool \<Rightarrow> fault + (JogCalcs \<times> bool \<times> bool)" where
  "halt_if_stale_or_zero jc shared_variables zero_cartesian_cmd_flag' zero_joint_cmd_flag' =
     (let stale_command = command_is_stale shared_variables in
      if stale_command \<or> (zero_cartesian_cmd_flag' \<and> zero_joint_cmd_flag') then
        bindF (suddenHalt jc (outgoing_command_member jc))
          (\<lambda>halted. Inr (jc\<lparr>outgoing_command_member := halted\<rparr>, True, True))
      else Inr (jc, zero_cartesian_cmd_flag', zero_joint_cmd_flag'))"

text \<open>The publish policy: what is written to the shared variables at the end of a cycle.\<close>

definition publish_policy ::
  "JogCalcs \<Rightarrow> JogArmShared \<Rightarrow> bool \<Rightarrow> bool \<Rightarrow> int \<Rightarrow> JogArmShared" where
  "publish_policy jc shared_variables zero_cartesian_cmd_flag' zero_joint_cmd_flag' zero_velocity_count =
     (let valid_nonzero_command = \<not> zero_cartesian_cmd_flag' \<or> \<not> zero_joint_cmd_flag' in
      if valid_nonzero_command then
        shared_variables\<lparr>outgoing_command := outgoing_command_member jc, ok_to_publish := True\<rparr>
      else if num_outgoing_halt_msgs_to_publish (parameters jc) \<noteq> 0 \<and>
              zero_velocity_count > num_outgoing_halt_msgs_to_publish (parameters jc) then
        shared_variables\<lparr>ok_to_publish := False\<rparr>
      else
        shared_variables\<lparr>outgoing_command := outgoing_command_member jc, ok_to_publish := True\<rparr>)"

text \<open>The counter of zero cycles, an int that stops at its largest value.\<close>

definition next_zero_velocity_count :: "bool \<Rightarrow> bool \<Rightarrow> int \<Rightarrow> int" where
  "next_zero_velocity_count zero_cartesian_cmd_flag' zero_joint_cmd_flag' zero_velocity_count =
     (if zero_cartesian_cmd_flag' \<and> zero_joint_cmd_flag' then
        (if zero_velocity_count < 2147483647 then zero_velocity_count + 1 else zero_velocity_count)
      else 0)"

subsection \<open>applyVelocityScaling\<close>

text \<open>
  The collision scale is read from the shared variables; the array is multiplied by the
  product of the two scales, and the return value flags that the scaling is at least 10 percent.
  Returned: the flag and the new \<open>delta_theta\<close>.
\<close>

definition applyVelocityScaling :: "JogArmShared \<Rightarrow> real list \<Rightarrow> real \<Rightarrow> bool \<times> real list" where
  "applyVelocityScaling shared_variables delta_theta singularity_scale =
     (let collision_scale = collision_velocity_scale shared_variables;
          delta_theta' = map (\<lambda>d. collision_scale * singularity_scale * d) delta_theta
      in (collision_scale * singularity_scale \<ge> 0.1, delta_theta'))"

subsection \<open>scaleCartesianCommand\<close>

text \<open>
  The result vector is allocated with six components that the constructor does not
  initialise; \<open>uninitialised\<close> gives the value each component holds after allocation.
  The first two branches assign all six components, the last one assigns none and logs
  an error. Returned: the vector and the log entries written.
\<close>

definition scaleCartesianCommand ::
  "JogArmParameters \<Rightarrow> (nat \<Rightarrow> real) \<Rightarrow> TwistStamped \<Rightarrow> real list \<times> log_entry list" where
  "scaleCartesianCommand params uninitialised command =
     (let result = [uninitialised 0, uninitialised 1, uninitialised 2,
                    uninitialised 3, uninitialised 4, uninitialised 5] in
      if command_in_type params = ''unitless'' then
        ([linear_scale params * publish_period params * linear_x command,
          linear_scale params * publish_period params * linear_y command,
          linear_scale params * publish_period params * linear_z command,
          rotational_scale params * publish_period params * angular_x command,
          rotational_scale params * publish_period params * angular_y command,
          rotational_scale params * publish_period params * angular_z command], [])
      else if command_in_type params = ''speed_units'' then
        ([linear_x command * publish_period params,
          linear_y command * publish_period params,
          linear_z command * publish_period params,
          angular_x command * publish_period params,
          angular_y command * publish_period params,
          angular_z command * publish_period params], [])
      else (result, [LogError ''Unexpected command_in_type'']))"

text \<open>The speed\_units form of a command: each component times the publish period.\<close>

definition speed_units_form :: "JogArmParameters \<Rightarrow> TwistStamped \<Rightarrow> real list" where
  "speed_units_form params command =
     [publish_period params * linear_x command,
      publish_period params * linear_y command,
      publish_period params * linear_z command,
      publish_period params * angular_x command,
      publish_period params * angular_y command,
      publish_period params * angular_z command]"

subsection \<open>Eigen operations\<close>

text \<open>
  The Eigen operations jog\_calcs.cpp applies to vectors and matrices of dynamic size.
  Eigen asserts that the sizes fit; where they do not, the model faults.
\<close>

definition vec_dot :: "real list \<Rightarrow> real list \<Rightarrow> fault + real" where
  "vec_dot a b =
     (if length a = length b then Inr (sum_list (map2 (*) a b)) else Inl EigenSizeMismatch)"

definition vec_add :: "real list \<Rightarrow> real list \<Rightarrow> fault + real list" where
  "vec_add a b = (if length a = length b then Inr (map2 (+) a b) else Inl EigenSizeMismatch)"

definition mat_vec :: "real list list \<Rightarrow> real list \<Rightarrow> fault + real list" where
  "mat_vec m v =
     (if list_all (\<lambda>row. length row = length v) m
      then Inr (map (\<lambda>row. sum_list (map2 (*) row v)) m) else Inl EigenSizeMismatch)"

definition mat_mul :: "real list list \<Rightarrow> real list list \<Rightarrow> fault + real list list" where
  "mat_mul a b =
     (if list_all (\<lambda>row. length row = length b) a
      then Inr (map (\<lambda>row. map (\<lambda>column. sum_list (map2 (*) row column)) (transpose b)) a)
      else Inl EigenSizeMismatch)"

definition mat_col :: "real list list \<Rightarrow> nat \<Rightarrow> fault + real list" where
  "mat_col m j =
     (if list_all (\<lambda>row. j < length row) m then Inr (map (\<lambda>row. row ! j) m)
      else Inl (IndexOutOfRange j))"

text \<open>
  The quotient of two doubles where the divisor may be 0: the condition number divides
  by the smallest singular value, and the C++ goes on with the infinity or the NaN the
  division gives. A comparison with a NaN is false.
\<close>

datatype quotient = Finite real | PlusInfinity | MinusInfinity | NotANumber

definition divide_double :: "real \<Rightarrow> real \<Rightarrow> quotient" where
  "divide_double x y =
     (if y = 0 then (if x > 0 then PlusInfinity else if x < 0 then MinusInfinity else NotANumber)
      else Finite (x / y))"

fun quotient_greater :: "quotient \<Rightarrow> real \<Rightarrow> bool" where
  "quotient_greater (Finite x) t = (x > t)"
| "quotient_greater PlusInfinity t = True"
| "quotient_greater MinusInfinity t = False"
| "quotient_greater NotANumber t = False"

fun quotient_less :: "quotient \<Rightarrow> real \<Rightarrow> bool" where
  "quotient_less (Finite x) t = (x < t)"
| "quotient_less PlusInfinity t = False"
| "quotient_less MinusInfinity t = True"
| "quotient_less NotANumber t = False"

fun quotient_ge :: "quotient \<Rightarrow> quotient \<Rightarrow> bool" where
  "quotient_ge NotANumber b = False"
| "quotient_ge a NotANumber = False"
| "quotient_ge PlusInfinity b = True"
| "quotient_ge a MinusInfinity = True"
| "quotient_ge (Finite x) (Finite y) = (x \<ge> y)"
| "quotient_ge (Finite x) PlusInfinity = False"
| "quotient_ge MinusInfinity b = False"

text \<open>\<open>singularValues()(0) / singularValues()(size - 1)\<close>.\<close>

definition condition_number :: "real list \<Rightarrow> fault + quotient" where
  "condition_number sv =
     (if sv = [] then Inl (IndexOutOfRange 0)
      else Inr (divide_double (sv ! 0) (sv ! (length sv - 1))))"

text \<open>\<open>singularValues().asDiagonal()\<close> and the inverse of that diagonal matrix (a singular
  value 0 has no inverse; the model's division gives 0 there).\<close>

definition asDiagonal :: "real list \<Rightarrow> real list list" where
  "asDiagonal sv = map (\<lambda>i. map (\<lambda>j. if i = j then sv ! i else 0) [0..<length sv]) [0..<length sv]"

definition inverse_of_diagonal :: "real list list \<Rightarrow> real list list" where
  "inverse_of_diagonal d =
     map (\<lambda>i. map (\<lambda>j. if i = j then 1 / (d ! i ! i) else 0) [0..<length d]) [0..<length d]"

subsection \<open>removeDimension and the pruning of the drift dimensions\<close>

text \<open>
  removeDimension: when the row is not the last one, the rows below it move up by one
  (a block assignment, and the same for the segment of \<open>delta_x\<close>); then the matrix and
  the vector are resized to one row less. \<open>num_rows\<close> is the row count minus 1, an
  unsigned int: for a matrix without rows it wraps around to 4294967295 and the block
  Eigen is asked for does not fit, a fault (the caller has checked that there is more
  than one row). The vector has as many
  components as the matrix has rows (six of each at the first call), so the resize
  only shortens it.
\<close>

definition shift_up :: "nat \<Rightarrow> nat \<Rightarrow> 'a list \<Rightarrow> 'a list" where
  "shift_up row_to_remove num_rows xs =
     take row_to_remove xs @ take (num_rows - row_to_remove) (drop (row_to_remove + 1) xs)
       @ drop num_rows xs"

definition removeDimension ::
  "real list list \<Rightarrow> real list \<Rightarrow> nat \<Rightarrow> fault + (real list list \<times> real list)" where
  "removeDimension jacobian delta_x row_to_remove =
     (let num_rows = length jacobian - 1 in
      if jacobian = [] then Inl EigenSizeMismatch
      else if row_to_remove < num_rows then
        (if length delta_x < num_rows + 1 then Inl EigenSizeMismatch
         else Inr (take num_rows (shift_up row_to_remove num_rows jacobian),
                   take num_rows (shift_up row_to_remove num_rows delta_x)))
      else Inr (take num_rows jacobian, take num_rows delta_x))"

text \<open>
  The loop of cartesianJogCalcs over the drift dimensions:
  \<^verbatim>\<open>for (auto dimension = jacobian.rows(); dimension >= 0; --dimension)\<close>.
  The first argument of \<open>prune_from\<close> is \<open>dimension + 1\<close>, so that 0 stands for the exit at
  \<open>dimension = -1\<close>. Each iteration first reads \<open>drift_dimensions[dimension]\<close>, an array
  the C++ does not check; a read at or beyond its length is a fault.
\<close>

fun prune_from ::
  "bool list \<Rightarrow> nat \<Rightarrow> real list list \<times> real list \<Rightarrow> fault + (real list list \<times> real list)" where
  "prune_from drift 0 jd = Inr jd"
| "prune_from drift (Suc dimension) jd =
     (if length drift \<le> dimension then Inl (IndexOutOfRange dimension)
      else if drift ! dimension \<and> length (fst jd) > 1 then
        bindF (removeDimension (fst jd) (snd jd) dimension) (prune_from drift dimension)
      else prune_from drift dimension jd)"

definition prune_drift_dimensions ::
  "bool list \<Rightarrow> real list list \<Rightarrow> real list \<Rightarrow> fault + (real list list \<times> real list)" where
  "prune_drift_dimensions drift jacobian delta_x =
     prune_from drift (Suc (length jacobian)) (jacobian, delta_x)"

subsection \<open>velocityScalingFactorForSingularity\<close>

text \<open>The look-ahead condition number: the singular values of a decomposition of the
  matrix \<open>jacobian\<close> that was passed in (\<^verbatim>\<open>new_svd(jacobian)\<close>).\<close>

definition new_condition_of :: "Collaborators \<Rightarrow> real list list \<Rightarrow> fault + quotient" where
  "new_condition_of api jacobian = condition_number (singularValues (jacobiSVD api jacobian))"

text \<open>The scale chosen from the initial condition number and the dot product. The ramp
  is computed only for a condition number strictly between the two thresholds, which
  is a finite one.\<close>

definition scale_for_condition :: "JogArmParameters \<Rightarrow> quotient \<Rightarrow> real \<Rightarrow> real" where
  "scale_for_condition params ini_condition dot_product =
     (if dot_product > 0 then
        (if quotient_greater ini_condition (lower_singularity_threshold params) \<and>
            quotient_less ini_condition (hard_stop_singularity_threshold params)
         then (case ini_condition of
                 Finite k \<Rightarrow>
                   1 - (k - lower_singularity_threshold params) /
                       (hard_stop_singularity_threshold params - lower_singularity_threshold params)
               | _ \<Rightarrow> 1)
         else if quotient_greater ini_condition (hard_stop_singularity_threshold params) then 0
         else 1)
      else 1)"

text \<open>Returned: the scale and the kinematic state, which the function changes.\<close>

definition velocityScalingFactorForSingularity ::
  "Collaborators \<Rightarrow> JogArmParameters \<Rightarrow> RobotState \<Rightarrow> real list \<Rightarrow> JacobiSVD
     \<Rightarrow> real list list \<Rightarrow> real list list \<Rightarrow> fault + (real \<times> RobotState)" where
  "velocityScalingFactorForSingularity api params kinematic_state0 commanded_velocity svd
       jacobian pseudo_inverse =
     (let num_dimensions = length jacobian in
      if num_dimensions = 0 then Inl (IndexOutOfRange 0)
      else
      bindF (mat_col (matrixU svd) (num_dimensions - 1)) (\<lambda>vector_toward_singularity.
      bindF (condition_number (singularValues svd)) (\<lambda>ini_condition.
      let delta_x = map (\<lambda>x. x / 100) vector_toward_singularity in
      bindF (mat_vec pseudo_inverse delta_x) (\<lambda>step.
      bindF (vec_add (copyJointGroupPositions kinematic_state0) step) (\<lambda>new_theta.
      let kinematic_state1 = setJointGroupPositions kinematic_state0 new_theta in
      bindF (new_condition_of api jacobian) (\<lambda>new_condition.
      let vector_toward_singularity1 =
            (if quotient_ge ini_condition new_condition then map uminus vector_toward_singularity
             else vector_toward_singularity) in
      bindF (vec_dot vector_toward_singularity1 commanded_velocity) (\<lambda>dot_product.
      Inr (scale_for_condition params ini_condition dot_product, kinematic_state1))))))))"

subsection \<open>cartesianJogCalcs\<close>

text \<open>\<open>svd.matrixV() * matrix_s.inverse() * svd.matrixU().transpose()\<close>.\<close>

definition pseudo_inverse_of :: "JacobiSVD \<Rightarrow> fault + real list list" where
  "pseudo_inverse_of svd =
     bindF (mat_mul (matrixV svd) (inverse_of_diagonal (asDiagonal (singularValues svd))))
       (\<lambda>v_s. mat_mul v_s (transpose (matrixU svd)))"

text \<open>The command rotated into the planning frame (when its frame is another one).\<close>

definition to_planning_frame :: "JogCalcs \<Rightarrow> TwistStamped \<Rightarrow> fault + TwistStamped" where
  "to_planning_frame jc cmd =
     (if frame_id cmd \<noteq> planning_frame (parameters jc) then
        bindF (mat_vec (tf_moveit_to_cmd_frame_linear jc) [linear_x cmd, linear_y cmd, linear_z cmd])
          (\<lambda>translation_vector.
             bindF (mat_vec (tf_moveit_to_cmd_frame_linear jc) [angular_x cmd, angular_y cmd, angular_z cmd])
               (\<lambda>angular_vector.
                  if length translation_vector \<noteq> 3 \<or> length angular_vector \<noteq> 3
                  then Inl EigenSizeMismatch
                  else Inr (cmd\<lparr>frame_id := planning_frame (parameters jc),
                                linear_x := translation_vector ! 0,
                                linear_y := translation_vector ! 1,
                                linear_z := translation_vector ! 2,
                                angular_x := angular_vector ! 0,
                                angular_y := angular_vector ! 1,
                                angular_z := angular_vector ! 2\<rparr>)))
      else Inr cmd)"

text \<open>
  A real is never NaN, so the first check of the command is not modelled. The command
  is passed by reference, but the caller reads it again from the shared variables
  before every call, so only the return value and the object are returned.
\<close>

definition cartesianJogCalcs ::
  "Collaborators \<Rightarrow> real \<Rightarrow> (nat \<Rightarrow> real) \<Rightarrow> JogCalcs \<Rightarrow> TwistStamped \<Rightarrow> JogArmShared
     \<Rightarrow> fault + (bool \<times> JogCalcs)" where
  "cartesianJogCalcs api now uninitialised jc cmd shared_variables =
     (if command_in_type (parameters jc) = ''unitless'' \<and>
         (\<bar>linear_x cmd\<bar> > 1 \<or> \<bar>linear_y cmd\<bar> > 1 \<or> \<bar>linear_z cmd\<bar> > 1 \<or>
          \<bar>angular_x cmd\<bar> > 1 \<or> \<bar>angular_y cmd\<bar> > 1 \<or> \<bar>angular_z cmd\<bar> > 1)
      then Inr (False, jc)
      else
      bindF (to_planning_frame jc cmd) (\<lambda>cmd1.
      let delta_x0 = fst (scaleCartesianCommand (parameters jc) uninitialised cmd1);
          jacobian0 = getJacobian api (kinematic_state jc) in
      bindF (prune_drift_dimensions (drift_dimensions shared_variables) jacobian0 delta_x0)
        (\<lambda>(jacobian, delta_x).
      let svd = jacobiSVD api jacobian in
      bindF (pseudo_inverse_of svd) (\<lambda>pseudo_inverse.
      bindF (mat_vec pseudo_inverse delta_x) (\<lambda>delta_theta.
      bindF (velocityScalingFactorForSingularity api (parameters jc) (kinematic_state jc)
               delta_x svd jacobian pseudo_inverse) (\<lambda>(singularity_scale, kinematic_state1).
      let (moving, delta_theta1) = applyVelocityScaling shared_variables delta_theta singularity_scale;
          jc1 = jc\<lparr>delta_theta_member := delta_theta1, kinematic_state := kinematic_state1\<rparr> in
      bindF (if moving then Inr jc1
             else bindF (suddenHalt jc1 (outgoing_command_member jc1))
                    (\<lambda>halted. Inr (jc1\<lparr>has_warning := True, outgoing_command_member := halted\<rparr>)))
        (convertDeltasToOutgoingCmd api now)))))))"

subsection \<open>A cycle of startMainLoop\<close>

text \<open>
  The jogging calculations of one cycle of the main loop, for a loop that is not paused
  (from the read of the zero flags to the update of \<open>zero_velocity_count\<close>). The
  Cartesian command has priority. When the calculation returns false the cycle is left
  (\<^verbatim>\<open>continue\<close>) and nothing is written; the first component of the result says
  whether the cycle came to its end.
\<close>

definition jog_cycle ::
  "Collaborators \<Rightarrow> real \<Rightarrow> (nat \<Rightarrow> real) \<Rightarrow> JogCalcs \<Rightarrow> JogArmShared \<Rightarrow> int
     \<Rightarrow> fault + (bool \<times> JogCalcs \<times> JogArmShared \<times> int)" where
  "jog_cycle api now uninitialised jc shared_variables zero_velocity_count =
     (let zero_cartesian_cmd_flag0 = zero_cartesian_cmd_flag shared_variables;
          zero_joint_cmd_flag0 = zero_joint_cmd_flag shared_variables in
      bindF
        (if \<not> zero_cartesian_cmd_flag0 then
           cartesianJogCalcs api now uninitialised jc (command_deltas shared_variables) shared_variables
         else if \<not> zero_joint_cmd_flag0 then
           jointJogCalcs api now jc (joint_command_deltas shared_variables)
         else Inr (True, jc\<lparr>outgoing_command_member := composeJointTrajMessage jc now (joint_state jc)\<rparr>))
        (\<lambda>(calculated, jc1).
           if \<not> calculated then Inr (False, jc1, shared_variables, zero_velocity_count)
           else
             bindF (halt_if_stale_or_zero jc1 shared_variables zero_cartesian_cmd_flag0 zero_joint_cmd_flag0)
               (\<lambda>(jc2, zero_cartesian_cmd_flag1, zero_joint_cmd_flag1).
                  Inr (True, jc2,
                       publish_policy jc2 shared_variables zero_cartesian_cmd_flag1
                         zero_joint_cmd_flag1 zero_velocity_count,
                       next_zero_velocity_count zero_cartesian_cmd_flag1 zero_joint_cmd_flag1
                         zero_velocity_count))))"

subsection \<open>Concrete values for the evaluations below\<close>

definition example_parameters :: JogArmParameters where
  "example_parameters =
     \<lparr>command_in_type = ''speed_units'', planning_frame = ''base_link'',
      publish_period = 1 / 100, linear_scale = 1 / 2, rotational_scale = 1 / 2,
      joint_scale = 1 / 2, lower_singularity_threshold = 5,
      hard_stop_singularity_threshold = 10, joint_limit_margin = 1 / 10,
      num_outgoing_halt_msgs_to_publish = 0, publish_joint_positions = True,
      publish_joint_velocities = True, publish_joint_accelerations = False,
      use_gazebo = False\<rparr>"

definition example_twist :: TwistStamped where
  "example_twist =
     \<lparr>frame_id = ''base_link'', linear_x = 1, linear_y = 0, linear_z = 0,
      angular_x = 0, angular_y = 0, angular_z = 0\<rparr>"

definition example_joint_state :: JointState where
  "example_joint_state =
     \<lparr>name = [''joint_a''], position = [1 / 4], velocity = [0], effort = [0]\<rparr>"

definition example_trajectory :: JointTrajectory where
  "example_trajectory =
     \<lparr>traj_frame_id = ''base_link'', traj_stamp = 0, joint_names = [''joint_a''],
      points = [\<lparr>positions = [1 / 2], velocities = [3], accelerations = [],
                 time_from_start = 1 / 100\<rparr>]\<rparr>"

text \<open>Shared variables with a zero Cartesian command and a stale joint command that
  moves \<open>joint_a\<close> at velocity 1.\<close>

definition example_shared :: JogArmShared where
  "example_shared =
     \<lparr>joints = example_joint_state, command_deltas = example_twist,
      joint_command_deltas = \<lparr>jog_joint_names = [''joint_a''], jog_velocities = [1]\<rparr>,
      zero_cartesian_cmd_flag = True, zero_joint_cmd_flag = False,
      command_is_stale = True,
      drift_dimensions = [False, False, False, False, False, False],
      collision_velocity_scale = 1 / 2, outgoing_command = example_trajectory,
      ok_to_publish = False\<rparr>"

text \<open>
  Collaborators for the evaluations: every bound is satisfied, the filter passes its
  input through, the Jacobian at \<open>\<theta>\<close> is the diagonal matrix of 2 and \<open>1 + \<theta>[1]\<close> (a
  robot of two joints), and the decomposition is the one of a diagonal matrix with a
  positive, decreasing diagonal: U and V are the identity and the singular values are
  the diagonal.
\<close>

definition example_collaborators :: Collaborators where
  "example_collaborators =
     \<lparr>setVariableValues = (\<lambda>ks js. ks\<lparr>variable_positions := position js\<rparr>),
      satisfiesVelocityBounds = (\<lambda>ks j. True),
      enforceVelocityBounds = (\<lambda>ks j. ks),
      getJointVelocities = (\<lambda>ks j. 0),
      satisfiesPositionBounds = (\<lambda>ks j margin. True),
      getJacobian = (\<lambda>ks. [[2, 0], [0, 1 + variable_positions ks ! 1]]),
      jacobiSVD = (\<lambda>m. \<lparr>matrixU = [[1, 0], [0, 1]], matrixV = [[1, 0], [0, 1]],
                           singularValues = [m ! 0 ! 0, m ! 1 ! 1]\<rparr>),
      filter_measurement = (\<lambda>st x. (x, st)),
      reset_filter = (\<lambda>st x. st)\<rparr>"

text \<open>An object for a move group of one joint, \<open>joint_a\<close>, at the position 1/4.\<close>

definition example_jog_calcs :: JogCalcs where
  "example_jog_calcs =
     \<lparr>parameters = example_parameters, num_joints = 1,
      joint_model_group = [\<lparr>getName = ''joint_a'',
                             getVariableBoundsMsg = [\<lparr>min_position = - 3, max_position = 3\<rparr>]\<rparr>],
      joint_state = example_joint_state, original_joint_state = example_joint_state,
      incoming_joints = example_joint_state,
      joint_state_name_map = [''joint_a'' \<mapsto> 0],
      delta_theta_member = [0], outgoing_command_member = example_trajectory,
      kinematic_state = \<lparr>variable_positions = [1 / 4], variable_velocities = [0]\<rparr>,
      tf_moveit_to_cmd_frame_linear = [[1, 0, 0], [0, 1, 0], [0, 0, 1]],
      position_filters = [[]], has_warning = False,
      gazebo_redundant_message_count = 2, published_warnings = []\<rparr>"

text \<open>Telemetry that names a joint outside the move group, and \<open>joint_a\<close> at 1/3.\<close>

definition example_telemetry :: JointState where
  "example_telemetry =
     \<lparr>name = [''finger'', ''joint_a''], position = [9, 1 / 3], velocity = [], effort = []\<rparr>"

text \<open>The call of velocityScalingFactorForSingularity of the evaluations: two joints at
  \<open>(0, 0)\<close>, the Jacobian there with its decomposition and pseudo-inverse, and
  thresholds that put the condition number 2 on the hard stop threshold.\<close>

definition example_robot_state :: RobotState where
  "example_robot_state = \<lparr>variable_positions = [0, 0], variable_velocities = [0, 0]\<rparr>"

definition example_jacobian :: "real list list" where
  "example_jacobian = [[2, 0], [0, 1]]"

definition example_svd :: JacobiSVD where
  "example_svd = \<lparr>matrixU = [[1, 0], [0, 1]], matrixV = [[1, 0], [0, 1]], singularValues = [2, 1]\<rparr>"

definition example_pseudo_inverse :: "real list list" where
  "example_pseudo_inverse = [[1 / 2, 0], [0, 1]]"

definition at_hard_stop :: JogArmParameters where
  "at_hard_stop = example_parameters\<lparr>lower_singularity_threshold := 1,
                                      hard_stop_singularity_threshold := 2\<rparr>"

text \<open>
  A robot of two joints whose Jacobian at \<open>\<theta>\<close> is the diagonal matrix of 2 and
  \<open>1 - \<theta>[1]\<close>: its condition number \<open>2 / (1 - \<theta>[1])\<close> grows with \<open>\<theta>[1]\<close>, so a motion
  along the second axis approaches a singularity. The thresholds 1 and 3 put the
  condition number 2 at \<open>\<theta> = (0, 0)\<close> on the ramp.
\<close>

definition receding_collaborators :: Collaborators where
  "receding_collaborators =
     example_collaborators\<lparr>getJacobian := (\<lambda>ks. [[2, 0], [0, 1 - variable_positions ks ! 1]])\<rparr>"

definition on_the_ramp :: JogArmParameters where
  "on_the_ramp = example_parameters\<lparr>lower_singularity_threshold := 1,
                                     hard_stop_singularity_threshold := 3\<rparr>"

text \<open>The object with the Gazebo padding switched on, for the count \<open>2 + k\<close>.\<close>

definition gazebo_jog_calcs :: "nat \<Rightarrow> JogCalcs" where
  "gazebo_jog_calcs k =
     example_jog_calcs\<lparr>parameters := example_parameters\<lparr>use_gazebo := True\<rparr>,
                       gazebo_redundant_message_count := 2 + int k\<rparr>"

section \<open>Properties\<close>

subsection \<open>Faults and loops\<close>

lemma bindF_Inr_iff: "bindF m f = Inr y \<longleftrightarrow> (\<exists>x. m = Inr x \<and> f x = Inr y)"
  by (cases m) (simp_all add: bindF_def)

lemma for_each_invariant:
  assumes "for_each xs body s = Inr s'" and "P s"
    and "\<And>i a b. i \<in> set xs \<Longrightarrow> P a \<Longrightarrow> body i a = Inr b \<Longrightarrow> P b"
  shows "P s'"
  using assms
proof (induction xs arbitrary: s)
  case Nil
  then show ?case by simp
next
  case (Cons i "is")
  from Cons.prems(1) obtain a where a: "body i s = Inr a" and rest: "for_each is body a = Inr s'"
    by (auto simp: bindF_Inr_iff)
  have "P a" using Cons.prems(3) [of i s a] Cons.prems(2) a by simp
  moreover have "P d" if "j \<in> set is" "P c" "body j c = Inr d" for j c d
    using Cons.prems(3) [of j c d] that by simp
  ultimately show ?case using Cons.IH [OF rest] by blast
qed

lemma for_each_total:
  assumes "P s"
    and "\<And>i a. i \<in> set xs \<Longrightarrow> P a \<Longrightarrow> \<exists>b. body i a = Inr b \<and> P b"
  shows "\<exists>s'. for_each xs body s = Inr s' \<and> P s'"
  using assms
proof (induction xs arbitrary: s)
  case Nil
  then show ?case by simp
next
  case (Cons i "is")
  from Cons.prems(2) [of i s] Cons.prems(1) obtain a where a: "body i s = Inr a" "P a"
    by auto
  have "\<exists>b. body j c = Inr b \<and> P b" if "j \<in> set is" "P c" for j c
    using Cons.prems(2) [of j c] that by simp
  from Cons.IH [OF a(2) this] a(1) show ?case
    by (simp add: bindF_def)
qed

lemma for_each_append:
  "for_each (xs @ ys) body s = bindF (for_each xs body s) (for_each ys body)"
  by (induction xs arbitrary: s) (auto simp: bindF_def split: sum.splits)

lemma upt_0_1: "[0..<1] = [0]"
  by (simp add: upt_rec)

lemma upt_from_2: "[2..<nat (2 + int k + 1)] = 2 # [3..<3 + k]"
proof -
  have "nat (2 + int k + 1) = 3 + k" by simp
  moreover have "[2..<3 + k] = 2 # [Suc 2..<3 + k]" by (rule upt_conv_Cons) simp
  ultimately show ?thesis by (simp add: eval_nat_numeral)
qed

lemma upt_0_2: "[0..<2] = [0, 1]"
  by (simp add: upt_rec numeral_2_eq_2)

subsection \<open>applyVelocityScaling\<close>

text \<open>
  C8. For every \<open>delta_theta\<close>, every singularity scale \<open>s\<close> and every collision scale
  \<open>c\<close> read from the shared state, applyVelocityScaling replaces \<open>delta_theta\<close> by
  \<open>c * s * delta_theta\<close> componentwise (same length, component \<open>i\<close> is
  \<open>c * s * delta_theta[i]\<close>) and returns true if and only if \<open>c * s \<ge> 0.1\<close>.
\<close>

theorem applyVelocityScaling_scales:
  "length (snd (applyVelocityScaling sh delta_theta s)) = length delta_theta \<and>
   (\<forall>i < length delta_theta.
      snd (applyVelocityScaling sh delta_theta s) ! i
        = collision_velocity_scale sh * s * (delta_theta ! i)) \<and>
   (fst (applyVelocityScaling sh delta_theta s) \<longleftrightarrow> collision_velocity_scale sh * s \<ge> 1 / 10)"
  by (simp add: applyVelocityScaling_def Let_def)

theorem applyVelocityScaling_scales_witness:
  "length (snd (applyVelocityScaling example_shared [2, 4] (1 / 2))) = 2 \<and>
   snd (applyVelocityScaling example_shared [2, 4] (1 / 2)) ! 1 = 1 \<and>
   fst (applyVelocityScaling example_shared [2, 4] (1 / 2)) \<and>
   \<not> fst (applyVelocityScaling example_shared [2, 4] (1 / 8))"
  using applyVelocityScaling_scales [of example_shared "[2, 4]" "1 / 2"]
    applyVelocityScaling_scales [of example_shared "[2, 4]" "1 / 8"]
  by (simp add: example_shared_def applyVelocityScaling_def)

subsection \<open>scaleCartesianCommand\<close>

text \<open>
  C5 as stated (for a command\_in\_type other than unitless and speed\_units the function
  returns the speed\_units form) fails: with the type \<open>''meters''\<close>, a publish period of
  1/100, the command \<open>(1, 0, 0, 0, 0, 0)\<close> and a freshly allocated vector that holds
  zeros, the result is the zero vector and not \<open>(1/100, 0, 0, 0, 0, 0)\<close>.
\<close>

theorem scaleCartesianCommand_other_type_counterexample:
  "fst (scaleCartesianCommand (example_parameters\<lparr>command_in_type := ''meters''\<rparr>)
          (\<lambda>i. 0) example_twist)
     \<noteq> speed_units_form (example_parameters\<lparr>command_in_type := ''meters''\<rparr>) example_twist"
  by (simp add: scaleCartesianCommand_def speed_units_form_def example_parameters_def
      example_twist_def)

text \<open>
  C5, amended. For every command and every command\_in\_type other than unitless and
  speed\_units, scaleCartesianCommand logs the error "Unexpected command\_in\_type" and
  returns a vector of six components, whose values the function does not define.
\<close>

theorem scaleCartesianCommand_other_type:
  assumes "command_in_type p \<noteq> ''unitless''" and "command_in_type p \<noteq> ''speed_units''"
  shows "snd (scaleCartesianCommand p u cmd) = [LogError ''Unexpected command_in_type''] \<and>
         length (fst (scaleCartesianCommand p u cmd)) = 6"
  using assms by (simp add: scaleCartesianCommand_def)

theorem scaleCartesianCommand_other_type_witness:
  "command_in_type (example_parameters\<lparr>command_in_type := ''meters''\<rparr>) \<noteq> ''unitless'' \<and>
   command_in_type (example_parameters\<lparr>command_in_type := ''meters''\<rparr>) \<noteq> ''speed_units'' \<and>
   snd (scaleCartesianCommand (example_parameters\<lparr>command_in_type := ''meters''\<rparr>)
          (\<lambda>i. 7) example_twist)
     = [LogError ''Unexpected command_in_type''] \<and>
   length (fst (scaleCartesianCommand (example_parameters\<lparr>command_in_type := ''meters''\<rparr>)
                  (\<lambda>i. 7) example_twist)) = 6"
  using scaleCartesianCommand_other_type
    [of "example_parameters\<lparr>command_in_type := ''meters''\<rparr>" "\<lambda>i. 7" example_twist]
  by simp

text \<open>In the model the six components are the ones the allocation left: the branch
  assigns none of them.\<close>

lemma scaleCartesianCommand_other_type_unassigned:
  assumes "command_in_type p \<noteq> ''unitless''" and "command_in_type p \<noteq> ''speed_units''"
  shows "fst (scaleCartesianCommand p u cmd) = [u 0, u 1, u 2, u 3, u 4, u 5]"
  using assms by (simp add: scaleCartesianCommand_def)

subsection \<open>updateJoints\<close>

lemma updateJoints_body_frame:
  assumes "updateJoints_body m a = Inr b"
  shows "name (joint_state b) = name (joint_state a) \<and>
         velocity (joint_state b) = velocity (joint_state a) \<and>
         effort (joint_state b) = effort (joint_state a)"
  using assms by (auto simp: updateJoints_body_def split: option.splits if_splits)

text \<open>
  C10. For every incoming joint telemetry message, a call of updateJoints that returns
  (true or false) leaves the name, velocity and effort vectors of the tracked joint
  state as they were: it writes position entries only.
\<close>

theorem updateJoints_frame:
  assumes "updateJoints jc sh = Inr (b, jc')"
  shows "name (joint_state jc') = name (joint_state jc) \<and>
         velocity (joint_state jc') = velocity (joint_state jc) \<and>
         effort (joint_state jc') = effort (joint_state jc)"
proof (cases "length (name (joints sh)) < num_joints jc")
  case True
  with assms show ?thesis by (auto simp: updateJoints_def Let_def)
next
  case False
  let ?jc1 = "jc\<lparr>incoming_joints := joints sh\<rparr>"
  let ?P = "\<lambda>a. name (joint_state a) = name (joint_state jc) \<and>
         velocity (joint_state a) = velocity (joint_state jc) \<and>
         effort (joint_state a) = effort (joint_state jc)"
  from False assms obtain jc2 where
    loop: "for_each [0..<length (name (joints sh))] updateJoints_body ?jc1 = Inr jc2"
    and jc': "jc' = jc2\<lparr>original_joint_state := joint_state jc2\<rparr>"
    by (auto simp: updateJoints_def Let_def bindF_Inr_iff)
  have "?P jc2"
    by (rule for_each_invariant [OF loop, where P = ?P]) (auto dest: updateJoints_body_frame)
  with jc' show ?thesis by simp
qed

theorem updateJoints_frame_witness:
  "updateJoints example_jog_calcs (example_shared\<lparr>joints := example_telemetry\<rparr>)
     = Inr (True, example_jog_calcs
              \<lparr>incoming_joints := example_telemetry,
               joint_state := example_joint_state\<lparr>position := [1 / 3]\<rparr>,
               original_joint_state := example_joint_state\<lparr>position := [1 / 3]\<rparr>\<rparr>) \<and>
   name (joint_state (example_jog_calcs
              \<lparr>incoming_joints := example_telemetry,
               joint_state := example_joint_state\<lparr>position := [1 / 3]\<rparr>,
               original_joint_state := example_joint_state\<lparr>position := [1 / 3]\<rparr>\<rparr>))
     = name (joint_state example_jog_calcs)"
  using updateJoints_frame [of example_jog_calcs "example_shared\<lparr>joints := example_telemetry\<rparr>" True
      "example_jog_calcs
              \<lparr>incoming_joints := example_telemetry,
               joint_state := example_joint_state\<lparr>position := [1 / 3]\<rparr>,
               original_joint_state := example_joint_state\<lparr>position := [1 / 3]\<rparr>\<rparr>"]
  by (simp add: updateJoints_def updateJoints_body_def bindF_def upt_0_2 example_jog_calcs_def
      example_telemetry_def example_joint_state_def)

text \<open>
  The call returns for every message that has a position for each of its names, when
  the name map holds indices of the tracked positions only.
\<close>

lemma updateJoints_returns:
  assumes "length (name (joints sh)) \<le> length (position (joints sh))"
    and "\<And>n c. joint_state_name_map jc n = Some c \<Longrightarrow> c < length (position (joint_state jc))"
  shows "\<exists>b jc'. updateJoints jc sh = Inr (b, jc')"
proof (cases "length (name (joints sh)) < num_joints jc")
  case True
  then show ?thesis by (auto simp: updateJoints_def Let_def)
next
  case False
  let ?P = "\<lambda>a :: JogCalcs. incoming_joints a = joints sh \<and> joint_state_name_map a = joint_state_name_map jc \<and>
                 length (position (joint_state a)) = length (position (joint_state jc))"
  have "\<exists>s'. for_each [0..<length (name (joints sh))] updateJoints_body
                (jc\<lparr>incoming_joints := joints sh\<rparr>) = Inr s' \<and> ?P s'"
  proof (rule for_each_total [where P = ?P])
    show "?P (jc\<lparr>incoming_joints := joints sh\<rparr>)" by simp
  next
    fix i and a :: JogCalcs
    assume "i \<in> set [0..<length (name (joints sh))]" and "?P a"
    then show "\<exists>b. updateJoints_body i a = Inr b \<and> ?P b"
      using assms(1) by (auto simp: updateJoints_body_def not_le split: option.splits dest: assms(2))
  qed
  with False show ?thesis
    by (auto simp: updateJoints_def Let_def bindF_def)
qed

subsection \<open>The publish policy\<close>

text \<open>
  C7. When num\_outgoing\_halt\_msgs\_to\_publish is 0, the publish policy of a cycle never
  sets ok\_to\_publish to false: for every pair of zero flags and every value of
  zero\_velocity\_count it writes the outgoing trajectory to the shared slot and sets
  ok\_to\_publish.
\<close>

theorem publish_policy_forever:
  assumes "num_outgoing_halt_msgs_to_publish (parameters jc) = 0"
  shows "ok_to_publish (publish_policy jc sh zc zj n) \<and>
         outgoing_command (publish_policy jc sh zc zj n) = outgoing_command_member jc"
  using assms by (simp add: publish_policy_def Let_def)

theorem publish_policy_forever_witness:
  "num_outgoing_halt_msgs_to_publish (parameters example_jog_calcs) = 0 \<and>
   ok_to_publish (publish_policy example_jog_calcs example_shared True True 1000000) \<and>
   outgoing_command (publish_policy example_jog_calcs example_shared True True 1000000)
     = example_trajectory"
  using publish_policy_forever [of example_jog_calcs example_shared True True 1000000]
  by (simp add: example_jog_calcs_def example_parameters_def)


text \<open>In a cycle: a cycle that comes to its end has published, and a cycle that is left
  early writes nothing to the shared variables.\<close>

lemma jog_cycle_publishes_forever:
  assumes "jog_cycle api now u jc sh n = Inr (finished, jc', sh', n')"
    and "num_outgoing_halt_msgs_to_publish (parameters jc') = 0"
  shows "if finished then ok_to_publish sh' \<and> outgoing_command sh' = outgoing_command_member jc'
         else sh' = sh"
proof -
  from assms(1) obtain calculated jc1 where
    rest: "(if \<not> calculated then Inr (False, jc1, sh, n)
          else bindF (halt_if_stale_or_zero jc1 sh (zero_cartesian_cmd_flag sh) (zero_joint_cmd_flag sh))
                 (\<lambda>(jc2, zc1, zj1).
                    Inr (True, jc2, publish_policy jc2 sh zc1 zj1 n,
                         next_zero_velocity_count zc1 zj1 n)))
          = Inr (finished, jc', sh', n')"
    unfolding jog_cycle_def Let_def bindF_Inr_iff by auto
  show ?thesis
  proof (cases calculated)
    case False
    with rest show ?thesis by simp
  next
    case True
    with rest obtain zc1 zj1 where "finished" "sh' = publish_policy jc' sh zc1 zj1 n"
      by (auto simp: bindF_Inr_iff)
    with assms(2) show ?thesis
      by (simp add: publish_policy_def)
  qed
qed

subsection \<open>enforceSRDFJointBounds\<close>

text \<open>
  C9. For a trajectory without points enforceSRDFJointBounds returns true and leaves the
  trajectory (and the object) unchanged.
\<close>

theorem enforceSRDFJointBounds_empty:
  assumes "points traj = []"
  shows "enforceSRDFJointBounds api jc traj = Inr (True, traj, jc)"
  using assms by (simp add: enforceSRDFJointBounds_def)

theorem enforceSRDFJointBounds_empty_witness:
  "points (example_trajectory\<lparr>points := []\<rparr>) = [] \<and>
   enforceSRDFJointBounds example_collaborators example_jog_calcs (example_trajectory\<lparr>points := []\<rparr>)
     = Inr (True, example_trajectory\<lparr>points := []\<rparr>, example_jog_calcs)"
  using enforceSRDFJointBounds_empty
    [of "example_trajectory\<lparr>points := []\<rparr>" example_collaborators example_jog_calcs]
  by simp

subsection \<open>The pruning of the drift dimensions\<close>

lemma prune_first_read:
  assumes "length drift \<le> length jacobian"
  shows "prune_drift_dimensions drift jacobian delta_x = Inl (IndexOutOfRange (length jacobian))"
  using assms by (simp add: prune_drift_dimensions_def)

text \<open>
  C4 (every index used to read the drift mask of length 6 lies in 0..5) does not hold
  of the loop: for a Jacobian with 6 rows, which is what getJacobian gives, the first
  iteration reads \<open>drift_dimensions[6]\<close>, whatever the mask holds.
\<close>

theorem prune_reads_past_mask:
  assumes "length drift = 6" and "length jacobian = 6"
  shows "prune_drift_dimensions drift jacobian delta_x = Inl (IndexOutOfRange 6)"
  using assms prune_first_read [of drift jacobian delta_x] by simp

theorem prune_reads_past_mask_witness:
  "length [False, False, False, False, False, False] = 6 \<and>
   length [[1], [0], [0], [0], [0], [0::real]] = 6 \<and>
   prune_drift_dimensions [False, False, False, False, False, False]
       [[1], [0], [0], [0], [0], [0]] [0, 0, 0, 0, 0, 0]
     = Inl (IndexOutOfRange 6)"
  using prune_reads_past_mask [of "[False, False, False, False, False, False]"
      "[[1], [0], [0], [0], [0], [0]]" "[0, 0, 0, 0, 0, 0]"]
  by simp

text \<open>With fewer rows than the mask has entries, every read is within the mask and the
  loop returns.\<close>

lemma length_shift_up:
  "num_rows < length xs \<Longrightarrow> row_to_remove < num_rows \<Longrightarrow>
   length (shift_up row_to_remove num_rows xs) = length xs"
  by (simp add: shift_up_def)

lemma removeDimension_lengths:
  assumes "length delta_x = length jacobian" and "1 < length jacobian"
  shows "\<exists>j d. removeDimension jacobian delta_x r = Inr (j, d) \<and>
               length j = length jacobian - 1 \<and> length d = length j"
  using assms by (auto simp: removeDimension_def Let_def length_shift_up)

lemma prune_from_in_range:
  assumes "k \<le> length drift" and "length (snd jd) = length (fst jd)"
  shows "\<exists>j d. prune_from drift k jd = Inr (j, d) \<and> length d = length j"
  using assms
proof (induction k arbitrary: jd)
  case 0
  then show ?case by (cases jd) simp
next
  case (Suc k)
  show ?case
  proof (cases "drift ! k \<and> length (fst jd) > 1")
    case True
    with Suc.prems(2) obtain j d where
      r: "removeDimension (fst jd) (snd jd) k = Inr (j, d)" "length d = length j"
      using removeDimension_lengths [of "snd jd" "fst jd" k] by auto
    from Suc.IH [of "(j, d)"] Suc.prems(1) r(2) obtain j' d' where
      "prune_from drift k (j, d) = Inr (j', d')" "length d' = length j'"
      by auto
    with True r(1) Suc.prems(1) show ?thesis
      by (auto simp: bindF_def)
  next
    case False
    from Suc.IH [of jd] Suc.prems obtain j' d' where
      "prune_from drift k jd = Inr (j', d')" "length d' = length j'"
      by auto
    with False Suc.prems(1) show ?thesis by auto
  qed
qed

lemma prune_in_range_below_six:
  assumes "length jacobian < length drift" and "length delta_x = length jacobian"
  shows "\<exists>j d. prune_drift_dimensions drift jacobian delta_x = Inr (j, d)"
  using prune_from_in_range [of "Suc (length jacobian)" drift "(jacobian, delta_x)"] assms
  by (auto simp: prune_drift_dimensions_def)

subsection \<open>velocityScalingFactorForSingularity\<close>

lemmas example_singularity_defs =
  example_robot_state_def example_jacobian_def example_svd_def example_pseudo_inverse_def
  at_hard_stop_def example_collaborators_def example_parameters_def

lemmas singularity_defs =
  velocityScalingFactorForSingularity_def new_condition_of_def scale_for_condition_def
  condition_number_def divide_double_def mat_col_def mat_vec_def vec_add_def vec_dot_def
  bindF_def copyJointGroupPositions_def setJointGroupPositions_def

text \<open>
  C1 (scale 0 when the condition number is at least the hard stop threshold, equality
  included) does not hold at equality: with singular values 2 and 1, thresholds 1 and 2
  and a command along the corrected singular direction, the condition number equals the
  hard stop threshold and the function returns 1.
\<close>

theorem scale_at_hard_stop_is_one:
  "velocityScalingFactorForSingularity example_collaborators at_hard_stop example_robot_state
       [0, - 1] example_svd example_jacobian example_pseudo_inverse
     = Inr (1, example_robot_state\<lparr>variable_positions := [0, 1 / 100]\<rparr>)"
  by (simp add: singularity_defs example_singularity_defs)

text \<open>With the lower threshold below the hard stop threshold, the scale in all cases of
  a finite condition number; for a smallest singular value 0 under a positive largest
  one the condition number is infinite and a motion toward the singularity is halted.\<close>

lemma scale_for_condition_cases:
  assumes "lower_singularity_threshold p < hard_stop_singularity_threshold p"
  shows "scale_for_condition p (Finite k) d =
     (if d \<le> 0 then 1
      else if k \<le> lower_singularity_threshold p then 1
      else if k < hard_stop_singularity_threshold p
        then 1 - (k - lower_singularity_threshold p) /
                 (hard_stop_singularity_threshold p - lower_singularity_threshold p)
      else if k = hard_stop_singularity_threshold p then 1
      else 0)"
  using assms by (auto simp: scale_for_condition_def)

lemma condition_number_singular:
  assumes "sv \<noteq> []" and "sv ! (length sv - 1) = 0" and "sv ! 0 > 0"
  shows "condition_number sv = Inr PlusInfinity"
  using assms by (simp add: condition_number_def divide_double_def)

lemma scale_for_infinite_condition:
  "scale_for_condition p PlusInfinity d = (if d > 0 then 0 else 1)"
  by (simp add: scale_for_condition_def)

text \<open>
  C2 as stated (the joint positions of the kinematic state after the call equal those
  before it) fails: in the call above the positions \<open>(0, 0)\<close> become \<open>(0, 1/100)\<close>.
\<close>

theorem probe_is_committed_counterexample:
  "\<not> (\<forall>api params ks v svd jacobian pinv s ks'.
        velocityScalingFactorForSingularity api params ks v svd jacobian pinv = Inr (s, ks')
        \<longrightarrow> copyJointGroupPositions ks' = copyJointGroupPositions ks)"
proof
  assume "\<forall>api params ks v svd jacobian pinv s ks'.
        velocityScalingFactorForSingularity api params ks v svd jacobian pinv = Inr (s, ks')
        \<longrightarrow> copyJointGroupPositions ks' = copyJointGroupPositions ks"
  moreover have "velocityScalingFactorForSingularity example_collaborators at_hard_stop example_robot_state
       [0, - 1] example_svd example_jacobian example_pseudo_inverse
     = Inr (1, example_robot_state\<lparr>variable_positions := [0, 1 / 100]\<rparr>)"
    by (simp add: singularity_defs example_singularity_defs)
  ultimately have "copyJointGroupPositions (example_robot_state\<lparr>variable_positions := [0, 1 / 100]\<rparr>)
      = copyJointGroupPositions example_robot_state"
    by blast
  then show False
    by (simp add: copyJointGroupPositions_def example_robot_state_def)
qed

text \<open>
  C2, amended. A call on matrices and vectors whose sizes fit returns, and it leaves in
  the kinematic state the probe positions: the positions before the call plus the
  pseudo-inverse times a hundredth of column \<open>rows - 1\<close> of U. Nothing restores the
  positions before the call.
\<close>

theorem probe_commits_step:
  assumes "jacobian \<noteq> []"
    and "list_all (\<lambda>row. length jacobian - 1 < length row) (matrixU svd)"
    and "singularValues svd \<noteq> []"
    and "singularValues (jacobiSVD api jacobian) \<noteq> []"
    and "list_all (\<lambda>row. length row = length (matrixU svd)) pseudo_inverse"
    and "length pseudo_inverse = length (variable_positions ks)"
    and "length commanded_velocity = length (matrixU svd)"
  shows "\<exists>s. velocityScalingFactorForSingularity api params ks commanded_velocity svd jacobian
               pseudo_inverse
           = Inr (s, ks\<lparr>variable_positions :=
                  map2 (+) (variable_positions ks)
                    (map (\<lambda>row. sum_list (map2 (*) row
                            (map (\<lambda>u. u ! (length jacobian - 1) / 100) (matrixU svd))))
                       pseudo_inverse)\<rparr>)"
  using assms
  by (simp add: singularity_defs Let_def o_def)

theorem probe_commits_step_witness:
  "example_jacobian \<noteq> [] \<and>
   list_all (\<lambda>row. length example_jacobian - 1 < length row) (matrixU example_svd) \<and>
   singularValues example_svd \<noteq> [] \<and>
   singularValues (jacobiSVD example_collaborators example_jacobian) \<noteq> [] \<and>
   list_all (\<lambda>row. length row = length (matrixU example_svd)) example_pseudo_inverse \<and>
   length example_pseudo_inverse = length (variable_positions example_robot_state) \<and>
   length [0, - 1 :: real] = length (matrixU example_svd) \<and>
   (\<exists>s. velocityScalingFactorForSingularity example_collaborators at_hard_stop
           example_robot_state [0, - 1] example_svd example_jacobian example_pseudo_inverse
         = Inr (s, example_robot_state\<lparr>variable_positions := [0, 1 / 100]\<rparr>))"
  using probe_commits_step [of example_jacobian example_svd example_collaborators
      example_pseudo_inverse example_robot_state "[0, - 1]" at_hard_stop]
  by (simp add: example_singularity_defs)

text \<open>
  C3 (the look-ahead condition number is that of the Jacobian evaluated at the probe
  positions) does not hold: the function decomposes the matrix it was given and never
  evaluates the Jacobian, so its result is the same whatever getJacobian is. For the
  robot whose Jacobian at \<open>\<theta>\<close> is the diagonal matrix of 2 and \<open>1 - \<theta>[1]\<close>, called at
  \<open>\<theta> = (0, 0)\<close> with the Jacobian there and thresholds 1 and 3, the probe positions are
  \<open>(0, 1/100)\<close> and the condition number grows from 2 to 200/99 along the last singular
  vector \<open>(0, 1)\<close>. With the look-ahead of the claim that vector is kept, the command
  \<open>(0, 1)\<close> moves toward the singularity and is scaled by 1/2, and the command \<open>(0, -1)\<close>
  moves away and keeps the scale 1. The function takes the initial condition number
  for the look-ahead, flips the vector, and returns 1 for \<open>(0, 1)\<close> and 1/2 for \<open>(0, -1)\<close>.
\<close>

theorem look_ahead_ignores_probe_jacobian:
  "velocityScalingFactorForSingularity (api\<lparr>getJacobian := g\<rparr>) params ks v svd jacobian pinv
     = velocityScalingFactorForSingularity api params ks v svd jacobian pinv \<and>
   velocityScalingFactorForSingularity receding_collaborators on_the_ramp example_robot_state
       [0, 1]
       (jacobiSVD receding_collaborators (getJacobian receding_collaborators example_robot_state))
       (getJacobian receding_collaborators example_robot_state) example_pseudo_inverse
     = Inr (1, example_robot_state\<lparr>variable_positions := [0, 1 / 100]\<rparr>) \<and>
   velocityScalingFactorForSingularity receding_collaborators on_the_ramp example_robot_state
       [0, - 1]
       (jacobiSVD receding_collaborators (getJacobian receding_collaborators example_robot_state))
       (getJacobian receding_collaborators example_robot_state) example_pseudo_inverse
     = Inr (1 / 2, example_robot_state\<lparr>variable_positions := [0, 1 / 100]\<rparr>) \<and>
   condition_number (singularValues (jacobiSVD receding_collaborators
       (getJacobian receding_collaborators example_robot_state)))
     = Inr (Finite 2) \<and>
   condition_number (singularValues (jacobiSVD receding_collaborators
       (getJacobian receding_collaborators (example_robot_state\<lparr>variable_positions := [0, 1 / 100]\<rparr>))))
     = Inr (Finite (200 / 99))"
proof -
  have "velocityScalingFactorForSingularity (api\<lparr>getJacobian := g\<rparr>) params ks v svd jacobian pinv
     = velocityScalingFactorForSingularity api params ks v svd jacobian pinv"
    by (simp add: velocityScalingFactorForSingularity_def new_condition_of_def)
  then show ?thesis
    by (simp add: singularity_defs example_singularity_defs receding_collaborators_def
        on_the_ramp_def)
qed

text \<open>The pseudo-inverse of the evaluations is the one cartesianJogCalcs computes from
  the decomposition.\<close>

lemma example_pseudo_inverse_computed:
  "pseudo_inverse_of example_svd = Inr example_pseudo_inverse"
  by (simp add: pseudo_inverse_of_def mat_mul_def asDiagonal_def inverse_of_diagonal_def
      bindF_def example_svd_def example_pseudo_inverse_def upt_0_2)

subsection \<open>suddenHalt and the halt of a stale command\<close>

lemma update_take_drop:
  assumes "n < length xs" and "n < length ys"
  shows "(take n xs @ drop n ys)[n := xs ! n] = take (Suc n) xs @ drop (Suc n) ys"
proof -
  have "drop n ys = ys ! n # drop (Suc n) ys"
    using assms(2) by (simp add: Cons_nth_drop_Suc)
  then show ?thesis
    using assms(1) by (simp add: list_update_append take_Suc_conv_app_nth)
qed

lemma replicate_update_drop:
  assumes "n < length ys"
  shows "(replicate n (0::real) @ drop n ys)[n := 0] = replicate (Suc n) 0 @ drop (Suc n) ys"
proof -
  have "drop n ys = ys ! n # drop (Suc n) ys"
    using assms by (simp add: Cons_nth_drop_Suc)
  then show ?thesis
    by (simp add: list_update_append replicate_append_same)
qed

lemma suddenHalt_iterations:
  assumes "points traj = pt # rest"
    and "publish_joint_positions params \<longrightarrow> n \<le> length (positions pt) \<and> n \<le> length (position original)"
    and "publish_joint_velocities params \<longrightarrow> n \<le> length (velocities pt)"
  shows "for_each [0..<n] (suddenHalt_body params original) traj
           = Inr (traj\<lparr>points := halted_point params original n pt # rest\<rparr>)"
  using assms(2,3)
proof (induction n)
  case 0
  then show ?case using assms(1) by (simp add: halted_point_def)
next
  case (Suc n)
  have IH: "for_each [0..<n] (suddenHalt_body params original) traj
           = Inr (traj\<lparr>points := halted_point params original n pt # rest\<rparr>)"
    by (rule Suc.IH) (use Suc.prems in auto)
  have step: "suddenHalt_body params original n (traj\<lparr>points := halted_point params original n pt # rest\<rparr>)
      = Inr (traj\<lparr>points := halted_point params original (Suc n) pt # rest\<rparr>)"
    using Suc.prems
    by (auto simp: suddenHalt_body_def halted_point_def bindF_def update_take_drop
        replicate_update_drop)
  show ?case
    by (simp add: for_each_append IH step bindF_def)
qed

lemma suddenHalt_first_point:
  assumes "points traj = pt # rest"
    and "publish_joint_positions (parameters jc) \<longrightarrow>
           num_joints jc \<le> length (positions pt) \<and>
           num_joints jc \<le> length (position (original_joint_state jc))"
    and "publish_joint_velocities (parameters jc) \<longrightarrow> num_joints jc \<le> length (velocities pt)"
  shows "suddenHalt jc traj
           = Inr (traj\<lparr>points := halted_point (parameters jc) (original_joint_state jc)
                                      (num_joints jc) pt # rest\<rparr>)"
  unfolding suddenHalt_def using assms by (rule suddenHalt_iterations)

text \<open>Halting a message composed from a joint state of the group's size: the result does
  not depend on the positions and velocities of that joint state.\<close>

lemma suddenHalt_composed:
  assumes "length (position js) = num_joints jc" and "length (velocity js) = num_joints jc"
    and "length (position (original_joint_state jc)) = num_joints jc"
  shows "suddenHalt jc (composeJointTrajMessage jc now js)
           = Inr \<lparr>traj_frame_id = planning_frame (parameters jc), traj_stamp = now,
                  joint_names = name js,
                  points = [\<lparr>positions = (if publish_joint_positions (parameters jc)
                                            then position (original_joint_state jc) else []),
                             velocities = (if publish_joint_velocities (parameters jc)
                                             then replicate (num_joints jc) 0 else []),
                             accelerations = (if publish_joint_accelerations (parameters jc)
                                                then replicate (num_joints jc) 0 else []),
                             time_from_start = publish_period (parameters jc)\<rparr>]\<rparr>"
proof -
  let ?pt = "\<lparr>positions = (if publish_joint_positions (parameters jc) then position js else []),
              velocities = (if publish_joint_velocities (parameters jc) then velocity js else []),
              accelerations = (if publish_joint_accelerations (parameters jc)
                               then replicate (num_joints jc) 0 else []),
              time_from_start = publish_period (parameters jc)\<rparr>"
  have "points (composeJointTrajMessage jc now js) = ?pt # []"
    by (simp add: composeJointTrajMessage_def)
  from suddenHalt_first_point [OF this] assms show ?thesis
    by (simp add: halted_point_def composeJointTrajMessage_def)
qed

lemma suddenHalt_idempotent:
  assumes "points traj = pt # rest"
    and "publish_joint_positions (parameters jc) \<longrightarrow>
           num_joints jc \<le> length (positions pt) \<and>
           num_joints jc \<le> length (position (original_joint_state jc))"
    and "publish_joint_velocities (parameters jc) \<longrightarrow> num_joints jc \<le> length (velocities pt)"
    and "suddenHalt jc traj = Inr halted"
  shows "suddenHalt jc halted = Inr halted"
proof -
  let ?h = "halted_point (parameters jc) (original_joint_state jc) (num_joints jc) pt"
  have h: "halted = traj\<lparr>points := ?h # rest\<rparr>"
    using suddenHalt_first_point [OF assms(1-3)] assms(4) by simp
  have "suddenHalt jc (traj\<lparr>points := ?h # rest\<rparr>)
          = Inr (traj\<lparr>points := ?h # rest\<rparr>
                   \<lparr>points := halted_point (parameters jc) (original_joint_state jc) (num_joints jc) ?h # rest\<rparr>)"
    using assms(2,3) by (intro suddenHalt_first_point) (auto simp: halted_point_def)
  moreover have "halted_point (parameters jc) (original_joint_state jc) (num_joints jc) ?h = ?h"
    using assms(2,3) by (auto simp: halted_point_def)
  ultimately show ?thesis using h by simp
qed

lemmas cycle_defs =
  jog_cycle_def jointJogCalcs_def scaleJointCommand_def convertDeltasToOutgoingCmd_def
  addJointIncrements_def lowPassFilterPositions_def calculateJointVelocities_def
  composeJointTrajMessage_def enforceSRDFJointBounds_def enforceSRDF_joint_def
  publishWarning_def insertRedundantPointsIntoTrajectory_def halt_if_stale_or_zero_def
  suddenHalt_def suddenHalt_body_def publish_policy_def next_zero_velocity_count_def
  bindF_def

text \<open>
  C6 (two consecutive stale cycles produce identical outgoing trajectory points, with the
  original positions and zero velocities) does not hold with the Gazebo padding: the
  redundant points are appended inside convertDeltasToOutgoingCmd, before the main loop
  halts the outgoing command, and suddenHalt rewrites the first point only. For one
  joint at 1/4, a stale joint command of velocity 1 in speed units and a period of
  1/100, the published trajectory has \<open>2 + k\<close> points; the first is halted, the second
  still commands the position 13/50 and the velocity 1.
\<close>

theorem stale_halt_keeps_redundant_points:
  "(case jog_cycle example_collaborators now u (gazebo_jog_calcs k) example_shared n of
      Inl f \<Rightarrow> False
    | Inr (finished, jc', shared', n') \<Rightarrow>
        finished \<and> ok_to_publish shared' \<and>
        length (points (outgoing_command shared')) = 2 + k \<and>
        velocities (points (outgoing_command shared') ! 0) = [0] \<and>
        positions (points (outgoing_command shared') ! 0) = position (original_joint_state jc') \<and>
        velocities (points (outgoing_command shared') ! 1) = [1] \<and>
        positions (points (outgoing_command shared') ! 1) = [13 / 50] \<and>
        position (original_joint_state jc') = [1 / 4])"
  by (simp add: cycle_defs gazebo_jog_calcs_def example_jog_calcs_def example_shared_def
      example_parameters_def example_joint_state_def example_collaborators_def
      upt_0_1 upt_from_2 Let_def)

end
